theory Spec2Isabelle
  imports Complex_Main "HOL-Library.Word"
begin

section \<open>Data model of \<open>src/lib/password-generator.ts\<close>\<close>

text \<open>
  \<open>PasswordOptions\<close> is the interface of the source. Its field \<open>length\<close> is renamed
  \<open>length_opt\<close>, since \<open>length\<close> is the list function of HOL. The specification's data model
  declares the length an integer, so it is an \<open>int\<close> here: negative values and values above
  128 are inputs of the model, non-integral numbers and NaN are not.
\<close>

record PasswordOptions =
  length_opt :: int
  includeUppercase :: bool
  includeLowercase :: bool
  includeNumbers :: bool
  includeSymbols :: bool

definition UPPERCASE :: string where
  "UPPERCASE = ''ABCDEFGHIJKLMNOPQRSTUVWXYZ''"

definition LOWERCASE :: string where
  "LOWERCASE = ''abcdefghijklmnopqrstuvwxyz''"

definition NUMBERS :: string where
  "NUMBERS = ''0123456789''"

definition SYMBOLS :: string where
  "SYMBOLS = ''!@#$%^&*()_+-=[]{}|;:,.<>?''"

text \<open>
  A thrown \<open>new Error(message)\<close> is the value \<open>Error message\<close>; a function that can throw
  returns \<open>js_error + 'a\<close>, with \<open>Inl\<close> for the throw.
\<close>

datatype js_error = Error string

definition EmptyCharacterClassSet :: js_error where
  "EmptyCharacterClassSet = Error ''At least one character type must be selected''"

definition LengthOutOfRange :: js_error where
  "LengthOutOfRange = Error ''Password length must be between 1 and 128''"

section \<open>The execution environment\<close>

text \<open>
  \<open>generatePassword\<close> reads two things of its environment: whether \<open>window.crypto\<close> exists,
  and the random numbers. \<open>getRandomValues env i\<close> is the unsigned 32-bit value that
  \<open>window.crypto.getRandomValues\<close> writes at index \<open>i\<close>; \<open>mathRandomFloor env i\<close> is the
  integer \<open>Math.floor(Math.random() * 0xffffffff)\<close> of the \<open>i\<close>-th iteration of the
  fallback loop, which is not negative because \<open>Math.random()\<close> is not. Both are arbitrary
  functions, so a theorem for every environment holds for every sequence of draws. A
  request of at most 128 values is far below the quota of \<open>getRandomValues\<close>, so that
  call does not throw.
\<close>

type_synonym u32 = "32 word"

record environment =
  windowCrypto :: bool
  getRandomValues :: "nat \<Rightarrow> u32"
  mathRandomFloor :: "nat \<Rightarrow> nat"

section \<open>Arrays and strings of the source language\<close>

text \<open>
  \<open>new Array(n)\<close> has \<open>n\<close> empty slots and reading a string or an array out of range gives
  \<open>undefined\<close>: an element that may be missing is a \<open>char option\<close>. \<open>join("")\<close> writes a
  missing element as the empty string. A store into an ordinary array beyond its end
  extends it; a store into a typed array beyond its end is ignored.
\<close>

definition new_Array :: "nat \<Rightarrow> char option list" where
  "new_Array n = replicate n None"

definition new_Uint32Array :: "nat \<Rightarrow> u32 list" where
  "new_Uint32Array n = replicate n 0"

definition string_at :: "string \<Rightarrow> nat option \<Rightarrow> char option" where
  "string_at s idx =
     (case idx of
        None \<Rightarrow> None
      | Some i \<Rightarrow> if i < length s then Some (s ! i) else None)"

definition typed_get :: "u32 list \<Rightarrow> nat \<Rightarrow> u32 option" where
  "typed_get a i = (if i < length a then Some (a ! i) else None)"

definition typed_set :: "u32 list \<Rightarrow> nat \<Rightarrow> nat \<Rightarrow> u32 list" where
  "typed_set a i v = (if i < length a then a[i := word_of_nat v] else a)"

definition array_set :: "char option list \<Rightarrow> nat \<Rightarrow> char option \<Rightarrow> char option list" where
  "array_set a i v =
     (if i < length a then a[i := v]
      else a @ replicate (i - length a) None @ [v])"

definition remainder :: "u32 option \<Rightarrow> nat \<Rightarrow> nat option" where
  "remainder v m =
     (case v of
        None \<Rightarrow> None
      | Some w \<Rightarrow> if m = 0 then None else Some (unat w mod m))"

fun join :: "char option list \<Rightarrow> string" where
  "join [] = []"
| "join (None # xs) = join xs"
| "join (Some c # xs) = c # join xs"

section \<open>\<open>generatePassword\<close>\<close>

text \<open>The character set built at the start of \<open>generatePassword\<close>, one \<open>+=\<close> after the other.\<close>

definition charset_of :: "PasswordOptions \<Rightarrow> string" where
  "charset_of options =
     (let charset = [];
          charset = (if includeUppercase options then charset @ UPPERCASE else charset);
          charset = (if includeLowercase options then charset @ LOWERCASE else charset);
          charset = (if includeNumbers options then charset @ NUMBERS else charset);
          charset = (if includeSymbols options then charset @ SYMBOLS else charset)
      in charset)"

text \<open>Filling the typed array: by \<open>window.crypto\<close>, or by the fallback loop.\<close>

definition crypto_fill :: "environment \<Rightarrow> u32 list \<Rightarrow> u32 list" where
  "crypto_fill env randomValues = map (getRandomValues env) [0..<length randomValues]"

function fallback_loop :: "environment \<Rightarrow> nat \<Rightarrow> nat \<Rightarrow> u32 list \<Rightarrow> u32 list" where
  "fallback_loop env i n randomValues =
     (if i < n
      then fallback_loop env (i + 1) n (typed_set randomValues i (mathRandomFloor env i))
      else randomValues)"
  by pat_completeness auto
termination
  by (relation "measure (\<lambda>(env, i, n, randomValues). n - i)") auto

text \<open>The loop that picks the characters.\<close>

function chars_loop ::
  "string \<Rightarrow> u32 list \<Rightarrow> nat \<Rightarrow> nat \<Rightarrow> char option list \<Rightarrow> char option list" where
  "chars_loop charset randomValues i n passwordArray =
     (if i < n
      then
        (let randomIndex = remainder (typed_get randomValues i) (length charset)
         in chars_loop charset randomValues (i + 1) n
              (array_set passwordArray i (string_at charset randomIndex)))
      else passwordArray)"
  by pat_completeness auto
termination
  by (relation "measure (\<lambda>(charset, randomValues, i, n, passwordArray). n - i)") auto

definition generatePassword :: "environment \<Rightarrow> PasswordOptions \<Rightarrow> js_error + string" where
  "generatePassword env options =
     (let charset = charset_of options in
      if length charset = 0
      then Inl (Error ''At least one character type must be selected'')
      else if length_opt options < 1 \<or> length_opt options > 128
      then Inl (Error ''Password length must be between 1 and 128'')
      else
        (let n = nat (length_opt options);
             passwordArray = new_Array n;
             randomValues = new_Uint32Array n;
             randomValues =
               (if windowCrypto env then crypto_fill env randomValues
                else fallback_loop env 0 n randomValues);
             passwordArray = chars_loop charset randomValues 0 n passwordArray
         in Inr (join passwordArray)))"

section \<open>\<open>calculatePasswordStrength\<close> and \<open>getStrengthInfo\<close>\<close>

text \<open>
  A password is a list of code units of any type \<open>'u\<close>: the function reads its length only.
  The sums are multiples of one half below 16, which binary floating point holds exactly,
  so the numbers are rationals. \<open>Math.round\<close> rounds a tie towards plus infinity.
\<close>

definition Math_round :: "rat \<Rightarrow> int" where
  "Math_round x = \<lfloor>x + 1 / 2\<rfloor>"

definition Math_min :: "int \<Rightarrow> int \<Rightarrow> int" where
  "Math_min a b = (if b < a then b else a)"

text \<open>The value of the variable \<open>strength\<close> at the \<open>return\<close>.\<close>

definition strength_sum :: "'u list \<Rightarrow> PasswordOptions \<Rightarrow> rat" where
  "strength_sum password options =
     (let strength = 0;
          strength =
            (if length password \<ge> 12 then strength + 4
             else if length password \<ge> 8 then strength + 2
             else if length password \<ge> 6 then strength + 1
             else strength);
          varietyCount = (0 :: nat);
          varietyCount = (if includeUppercase options then varietyCount + 1 else varietyCount);
          varietyCount = (if includeLowercase options then varietyCount + 1 else varietyCount);
          varietyCount = (if includeNumbers options then varietyCount + 1 else varietyCount);
          varietyCount = (if includeSymbols options then varietyCount + 1 else varietyCount);
          strength = strength + of_nat varietyCount * (3 / 2)
      in strength)"

definition calculatePasswordStrength :: "'u list \<Rightarrow> PasswordOptions \<Rightarrow> int" where
  "calculatePasswordStrength password options =
     Math_min 10 (Math_round (strength_sum password options))"

record StrengthInfo =
  label :: string
  color :: string

definition getStrengthInfo :: "int \<Rightarrow> StrengthInfo" where
  "getStrengthInfo strength =
     (if strength \<le> 3 then \<lparr>label = ''Weak'', color = ''bg-red-500''\<rparr>
      else if strength \<le> 6 then \<lparr>label = ''Medium'', color = ''bg-yellow-500''\<rparr>
      else \<lparr>label = ''Strong'', color = ''bg-green-500''\<rparr>)"

section \<open>The generate action of \<open>src/app/page.tsx\<close>\<close>

text \<open>
  The component's state is the four \<open>useState\<close> cells. \<open>generateNewPassword\<close> returns the
  state after the handler together with the lines it wrote with \<open>console.error\<close>.
\<close>

record ui_state =
  length_st :: int
  options_st :: PasswordOptions
  copied_st :: bool
  password_st :: string

definition generateNewPassword ::
  "environment \<Rightarrow> ui_state \<Rightarrow> ui_state \<times> (string \<times> js_error) list" where
  "generateNewPassword env st =
     (case generatePassword env ((options_st st)\<lparr>length_opt := length_st st\<rparr>) of
        Inr newPassword \<Rightarrow> (st\<lparr>password_st := newPassword, copied_st := False\<rparr>, [])
      | Inl error \<Rightarrow> (st, [(''Error generating password:'', error)]))"

text \<open>The options the page starts with (\<open>initialOptions\<close> of \<open>src/app/page.tsx\<close>).\<close>

definition initialOptions :: PasswordOptions where
  "initialOptions =
     \<lparr>length_opt = 16, includeUppercase = True, includeLowercase = True,
      includeNumbers = True, includeSymbols = True\<rparr>"

section \<open>Notions used to state the results\<close>

text \<open>
  \<open>draw env j\<close> is the value that the typed array holds at index \<open>j\<close> once it is filled, and
  \<open>pick charset randomValues j\<close> the character that the draw at index \<open>j\<close> selects.
\<close>

definition draw :: "environment \<Rightarrow> nat \<Rightarrow> u32" where
  "draw env j =
     (if windowCrypto env then getRandomValues env j
      else word_of_nat (mathRandomFloor env j))"

definition pick :: "string \<Rightarrow> u32 list \<Rightarrow> nat \<Rightarrow> char" where
  "pick charset randomValues j = charset ! (unat (randomValues ! j) mod length charset)"

text \<open>
  The pool as the specification words it: the alphabets of the enabled classes, in the
  order uppercase, lowercase, digits, symbols, one after the other.
\<close>

definition pool_by_spec :: "PasswordOptions \<Rightarrow> string" where
  "pool_by_spec options =
     concat (map snd (filter fst
       [(includeUppercase options, UPPERCASE),
        (includeLowercase options, LOWERCASE),
        (includeNumbers options, NUMBERS),
        (includeSymbols options, SYMBOLS)]))"

text \<open>
  A policy is valid when its length lies in the closed interval from 1 to 128 and at least
  one of the four classes is enabled.
\<close>

definition class_enabled :: "PasswordOptions \<Rightarrow> bool" where
  "class_enabled options \<longleftrightarrow>
     includeUppercase options \<or> includeLowercase options \<or>
     includeNumbers options \<or> includeSymbols options"

definition valid_policy :: "PasswordOptions \<Rightarrow> bool" where
  "valid_policy options \<longleftrightarrow>
     1 \<le> length_opt options \<and> length_opt options \<le> 128 \<and> class_enabled options"

section \<open>The two loops in closed form\<close>

declare fallback_loop.simps [simp del] chars_loop.simps [simp del]

lemma fallback_loop_closed:
  assumes "length randomValues = n" "i \<le> n"
  shows "fallback_loop env i n randomValues =
         take i randomValues @ map (\<lambda>j. word_of_nat (mathRandomFloor env j)) [i..<n]"
  using assms
proof (induction env i n randomValues rule: fallback_loop.induct)
  case (1 env i n randomValues)
  show ?case
  proof (cases "i < n")
    case True
    let ?v = "word_of_nat (mathRandomFloor env i) :: u32"
    let ?rv = "randomValues[i := ?v]"
    have set: "typed_set randomValues i (mathRandomFloor env i) = ?rv"
      using True "1.prems" by (simp add: typed_set_def)
    have unfold: "fallback_loop env i n randomValues = fallback_loop env (i + 1) n ?rv"
      using True by (subst fallback_loop.simps) (simp add: set)
    have ih: "fallback_loop env (i + 1) n ?rv =
          take (i + 1) ?rv @ map (\<lambda>j. word_of_nat (mathRandomFloor env j)) [i + 1..<n]"
      using "1.IH" [OF True] True "1.prems" by (simp add: set)
    have tk: "take (i + 1) ?rv = take i randomValues @ [?v]"
      using True "1.prems" by (simp add: take_Suc_conv_app_nth)
    have up: "[i..<n] = i # [i + 1..<n]"
      using True by (simp add: upt_conv_Cons)
    show ?thesis
      by (simp only: unfold ih tk up list.map append_assoc append_Cons append_Nil)
  next
    case False
    with "1.prems" have "i = n" by simp
    then show ?thesis using "1.prems" by (subst fallback_loop.simps) simp
  qed
qed

lemma chars_loop_step:
  assumes "charset \<noteq> []" "i < length randomValues"
  shows "string_at charset (remainder (typed_get randomValues i) (length charset)) =
         Some (pick charset randomValues i)"
  using assms by (simp add: string_at_def remainder_def typed_get_def pick_def)

lemma chars_loop_closed:
  assumes "charset \<noteq> []" "length randomValues = n" "length passwordArray = n" "i \<le> n"
  shows "chars_loop charset randomValues i n passwordArray =
         take i passwordArray @ map (\<lambda>j. Some (pick charset randomValues j)) [i..<n]"
  using assms
proof (induction charset randomValues i n passwordArray rule: chars_loop.induct)
  case (1 charset randomValues i n passwordArray)
  show ?case
  proof (cases "i < n")
    case True
    let ?v = "Some (pick charset randomValues i)"
    let ?pa = "passwordArray[i := ?v]"
    have set: "array_set passwordArray i ?v = ?pa"
      using True "1.prems" by (simp add: array_set_def)
    have unfold: "chars_loop charset randomValues i n passwordArray =
          chars_loop charset randomValues (i + 1) n ?pa"
      using True "1.prems" by (subst chars_loop.simps) (simp add: chars_loop_step set)
    have ih: "chars_loop charset randomValues (i + 1) n ?pa =
          take (i + 1) ?pa @ map (\<lambda>j. Some (pick charset randomValues j)) [i + 1..<n]"
      using "1.IH" [OF True refl] True "1.prems" by (simp add: chars_loop_step set)
    have tk: "take (i + 1) ?pa = take i passwordArray @ [?v]"
      using True "1.prems" by (simp add: take_Suc_conv_app_nth)
    have up: "[i..<n] = i # [i + 1..<n]"
      using True by (simp add: upt_conv_Cons)
    show ?thesis
      by (simp only: unfold ih tk up list.map append_assoc append_Cons append_Nil)
  next
    case False
    with "1.prems" have "i = n" by simp
    then show ?thesis using "1.prems" by (subst chars_loop.simps) simp
  qed
qed

lemma join_map_Some: "join (map (\<lambda>j. Some (f j)) js) = map f js"
  by (induction js) simp_all

section \<open>\<open>generatePassword\<close> in closed form\<close>

lemma charset_of_empty_iff: "charset_of options = [] \<longleftrightarrow> \<not> class_enabled options"
  by (simp add: charset_of_def class_enabled_def
      UPPERCASE_def LOWERCASE_def NUMBERS_def SYMBOLS_def)

lemma in_charset_of:
  "c \<in> set (charset_of options) \<longleftrightarrow>
     (includeUppercase options \<and> c \<in> set UPPERCASE) \<or>
     (includeLowercase options \<and> c \<in> set LOWERCASE) \<or>
     (includeNumbers options \<and> c \<in> set NUMBERS) \<or>
     (includeSymbols options \<and> c \<in> set SYMBOLS)"
  by (auto simp: charset_of_def)

lemma filled_array:
  "(if windowCrypto env then crypto_fill env (new_Uint32Array n)
    else fallback_loop env 0 n (new_Uint32Array n)) = map (draw env) [0..<n]"
  by (simp add: crypto_fill_def new_Uint32Array_def fallback_loop_closed draw_def)

lemma generatePassword_closed:
  assumes "valid_policy options"
  shows "generatePassword env options =
         Inr (map (\<lambda>j. charset_of options ! (unat (draw env j) mod length (charset_of options)))
                [0..<nat (length_opt options)])"
proof -
  let ?cs = "charset_of options" and ?n = "nat (length_opt options)"
  let ?rv = "map (draw env) [0..<?n]"
  have cs: "?cs \<noteq> []"
    using assms by (simp add: charset_of_empty_iff valid_policy_def)
  have loop: "chars_loop ?cs ?rv 0 ?n (new_Array ?n) =
        map (\<lambda>j. Some (pick ?cs ?rv j)) [0..<?n]"
    using cs by (simp add: chars_loop_closed new_Array_def)
  have picks: "map (pick ?cs ?rv) [0..<?n] =
        map (\<lambda>j. ?cs ! (unat (draw env j) mod length ?cs)) [0..<?n]"
    by (simp add: pick_def)
  have "generatePassword env options = Inr (join (chars_loop ?cs ?rv 0 ?n (new_Array ?n)))"
    using assms cs by (simp add: generatePassword_def Let_def filled_array valid_policy_def)
  also have "\<dots> = Inr (map (pick ?cs ?rv) [0..<?n])"
    by (simp only: loop join_map_Some)
  finally show ?thesis
    by (simp only: picks)
qed

lemma generatePassword_no_class:
  assumes "\<not> class_enabled options"
  shows "generatePassword env options = Inl EmptyCharacterClassSet"
  using assms
  by (simp add: generatePassword_def Let_def charset_of_empty_iff EmptyCharacterClassSet_def)

lemma generatePassword_bad_length:
  assumes "class_enabled options" "length_opt options < 1 \<or> length_opt options > 128"
  shows "generatePassword env options = Inl LengthOutOfRange"
  using assms
  by (simp add: generatePassword_def Let_def charset_of_empty_iff LengthOutOfRange_def)

text \<open>
  An example on the fallback path: the draws \<open>4294967301 + 13 * i\<close> wrap around to
  \<open>5, 18, 31, 44, 57, 70\<close> when they are stored, and select from the 36 characters of the
  upper-case letters and the digits.
\<close>

lemma generatePassword_example:
  "generatePassword
     \<lparr>windowCrypto = False, getRandomValues = (\<lambda>i. 0), mathRandomFloor = (\<lambda>i. 13 * i + 4294967301)\<rparr>
     \<lparr>length_opt = 6, includeUppercase = True, includeLowercase = False,
      includeNumbers = True, includeSymbols = False\<rparr> = Inr ''FS5IV8''"
  by (simp add: generatePassword_closed valid_policy_def class_enabled_def charset_of_def
      UPPERCASE_def NUMBERS_def draw_def upt_rec unat_of_nat)

text \<open>The character set against the wording of the specification.\<close>

lemma charset_of_pool: "charset_of options = pool_by_spec options"
  by (simp add: charset_of_def pool_by_spec_def)

lemma UPPERCASE_range:
  "UPPERCASE = map char_of [of_char CHR ''A'' ..< Suc (of_char CHR ''Z'') :: nat]"
  by code_simp

lemma LOWERCASE_range:
  "LOWERCASE = map char_of [of_char CHR ''a'' ..< Suc (of_char CHR ''z'') :: nat]"
  by code_simp

lemma NUMBERS_range:
  "NUMBERS = map char_of [of_char CHR ''0'' ..< Suc (of_char CHR ''9'') :: nat]"
  by code_simp

section \<open>Properties of \<open>generatePassword\<close>\<close>

text \<open>
  Claim C1. For every valid policy and every environment, that is for every sequence of
  random draws and for both random sources, \<open>generatePassword\<close> returns a string, and each
  of its characters belongs to the alphabet of a class that the policy enables.
\<close>

theorem generatePassword_chars_in_enabled_classes:
  assumes "valid_policy options"
  shows "\<exists>password. generatePassword env options = Inr password \<and>
           (\<forall>c \<in> set password.
              (includeUppercase options \<and> c \<in> set UPPERCASE) \<or>
              (includeLowercase options \<and> c \<in> set LOWERCASE) \<or>
              (includeNumbers options \<and> c \<in> set NUMBERS) \<or>
              (includeSymbols options \<and> c \<in> set SYMBOLS))"
proof -
  let ?cs = "charset_of options"
  let ?pw = "map (\<lambda>j. ?cs ! (unat (draw env j) mod length ?cs)) [0..<nat (length_opt options)]"
  have cs: "?cs \<noteq> []"
    using assms by (simp add: charset_of_empty_iff valid_policy_def)
  have "c \<in> set ?cs" if "c \<in> set ?pw" for c
  proof -
    from that obtain j where "c = ?cs ! (unat (draw env j) mod length ?cs)"
      by auto
    moreover have "unat (draw env j) mod length ?cs < length ?cs"
      using cs by simp
    ultimately show ?thesis
      by simp
  qed
  then have "\<forall>c \<in> set ?pw.
              (includeUppercase options \<and> c \<in> set UPPERCASE) \<or>
              (includeLowercase options \<and> c \<in> set LOWERCASE) \<or>
              (includeNumbers options \<and> c \<in> set NUMBERS) \<or>
              (includeSymbols options \<and> c \<in> set SYMBOLS)"
    by (simp only: in_charset_of) blast
  with generatePassword_closed [OF assms, of env] show ?thesis
    by blast
qed

theorem generatePassword_chars_witness:
  "\<exists>password.
     generatePassword
       \<lparr>windowCrypto = True, getRandomValues = (\<lambda>i. 4294967295), mathRandomFloor = (\<lambda>i. 0)\<rparr>
       \<lparr>length_opt = 3, includeUppercase = False, includeLowercase = False,
        includeNumbers = True, includeSymbols = False\<rparr> = Inr password \<and>
     set password \<subseteq> set NUMBERS"
proof -
  let ?options = "\<lparr>length_opt = 3, includeUppercase = False, includeLowercase = False,
        includeNumbers = True, includeSymbols = False\<rparr>"
  have "valid_policy ?options"
    by (simp add: valid_policy_def class_enabled_def)
  from generatePassword_chars_in_enabled_classes [OF this] show ?thesis
    by (simp add: subset_iff Ball_def)
qed

text \<open>
  Claim C2. For every valid policy and every environment, \<open>generatePassword\<close> returns a
  string whose length is exactly the length of the policy.
\<close>

theorem generatePassword_length:
  assumes "valid_policy options"
  shows "\<exists>password. generatePassword env options = Inr password \<and>
           int (length password) = length_opt options"
  using assms generatePassword_closed [OF assms, of env]
  by (simp add: valid_policy_def)

theorem generatePassword_length_witness:
  "\<exists>password.
     generatePassword
       \<lparr>windowCrypto = False, getRandomValues = (\<lambda>i. 0), mathRandomFloor = (\<lambda>i. 97 * i + 5)\<rparr>
       initialOptions = Inr password \<and>
     length password = 16"
  using generatePassword_length
    [of initialOptions
        "\<lparr>windowCrypto = False, getRandomValues = (\<lambda>i. 0), mathRandomFloor = (\<lambda>i. 97 * i + 5)\<rparr>"]
  by (simp add: valid_policy_def class_enabled_def initialOptions_def)

text \<open>
  Claim C3. \<open>generatePassword\<close> throws if and only if the policy is not valid. With no
  class enabled it throws the error of the empty class set, whatever the length; with a
  class enabled and a length below 1 or above 128 it throws the error of the length, in
  particular at 0 and at 129; at 1 and at 128 with a class enabled it returns a string.
  The two errors differ.
\<close>

theorem generatePassword_fails_iff_invalid:
  "(isl (generatePassword env options) \<longleftrightarrow> \<not> valid_policy options) \<and>
   (\<not> class_enabled options \<longrightarrow>
      generatePassword env options = Inl EmptyCharacterClassSet) \<and>
   (class_enabled options \<and> (length_opt options < 1 \<or> 128 < length_opt options) \<longrightarrow>
      generatePassword env options = Inl LengthOutOfRange) \<and>
   (class_enabled options \<longrightarrow>
      generatePassword env (options\<lparr>length_opt := 0\<rparr>) = Inl LengthOutOfRange \<and>
      generatePassword env (options\<lparr>length_opt := 129\<rparr>) = Inl LengthOutOfRange \<and>
      (\<exists>password. generatePassword env (options\<lparr>length_opt := 1\<rparr>) = Inr password) \<and>
      (\<exists>password. generatePassword env (options\<lparr>length_opt := 128\<rparr>) = Inr password)) \<and>
   EmptyCharacterClassSet \<noteq> LengthOutOfRange"
proof (intro conjI impI)
  show "isl (generatePassword env options) \<longleftrightarrow> \<not> valid_policy options"
  proof (cases "valid_policy options")
    case True
    then show ?thesis by (simp add: generatePassword_closed)
  next
    case False
    then show ?thesis
      by (cases "class_enabled options")
        (auto simp: valid_policy_def generatePassword_no_class generatePassword_bad_length)
  qed
next
  assume "\<not> class_enabled options"
  then show "generatePassword env options = Inl EmptyCharacterClassSet"
    by (rule generatePassword_no_class)
next
  assume "class_enabled options \<and> (length_opt options < 1 \<or> 128 < length_opt options)"
  then show "generatePassword env options = Inl LengthOutOfRange"
    by (simp add: generatePassword_bad_length)
next
  assume en: "class_enabled options"
  then have en': "class_enabled (options\<lparr>length_opt := k\<rparr>)" for k
    by (simp add: class_enabled_def)
  show "generatePassword env (options\<lparr>length_opt := 0\<rparr>) = Inl LengthOutOfRange"
    using en' by (simp add: generatePassword_bad_length)
  show "generatePassword env (options\<lparr>length_opt := 129\<rparr>) = Inl LengthOutOfRange"
    using en' by (simp add: generatePassword_bad_length)
  have "valid_policy (options\<lparr>length_opt := 1\<rparr>)"
    using en' by (simp add: valid_policy_def)
  then show "\<exists>password. generatePassword env (options\<lparr>length_opt := 1\<rparr>) = Inr password"
    by (simp add: generatePassword_closed)
  have "valid_policy (options\<lparr>length_opt := 128\<rparr>)"
    using en' by (simp add: valid_policy_def)
  then show "\<exists>password. generatePassword env (options\<lparr>length_opt := 128\<rparr>) = Inr password"
    by (simp add: generatePassword_closed)
next
  show "EmptyCharacterClassSet \<noteq> LengthOutOfRange"
    by (simp add: EmptyCharacterClassSet_def LengthOutOfRange_def)
qed

theorem generatePassword_fails_witness:
  "generatePassword
     \<lparr>windowCrypto = True, getRandomValues = (\<lambda>i. 7), mathRandomFloor = (\<lambda>i. 0)\<rparr>
     \<lparr>length_opt = 500, includeUppercase = False, includeLowercase = False,
      includeNumbers = False, includeSymbols = False\<rparr> = Inl EmptyCharacterClassSet \<and>
   generatePassword
     \<lparr>windowCrypto = True, getRandomValues = (\<lambda>i. 7), mathRandomFloor = (\<lambda>i. 0)\<rparr>
     \<lparr>length_opt = 129, includeUppercase = False, includeLowercase = True,
      includeNumbers = False, includeSymbols = False\<rparr> = Inl LengthOutOfRange \<and>
   isl (generatePassword
     \<lparr>windowCrypto = True, getRandomValues = (\<lambda>i. 7), mathRandomFloor = (\<lambda>i. 0)\<rparr>
     \<lparr>length_opt = 128, includeUppercase = False, includeLowercase = True,
      includeNumbers = False, includeSymbols = False\<rparr>) = False"
proof -
  let ?env = "\<lparr>windowCrypto = True, getRandomValues = (\<lambda>i. 7), mathRandomFloor = (\<lambda>i. 0)\<rparr>"
  let ?none = "\<lparr>length_opt = 500, includeUppercase = False, includeLowercase = False,
      includeNumbers = False, includeSymbols = False\<rparr>"
  let ?long = "\<lparr>length_opt = 129, includeUppercase = False, includeLowercase = True,
      includeNumbers = False, includeSymbols = False\<rparr>"
  let ?ok = "\<lparr>length_opt = 128, includeUppercase = False, includeLowercase = True,
      includeNumbers = False, includeSymbols = False\<rparr>"
  have "\<not> class_enabled ?none"
    by (simp add: class_enabled_def)
  with generatePassword_fails_iff_invalid [of ?env ?none]
  have a: "generatePassword ?env ?none = Inl EmptyCharacterClassSet"
    by blast
  have "class_enabled ?long \<and> (length_opt ?long < 1 \<or> 128 < length_opt ?long)"
    by (simp add: class_enabled_def)
  with generatePassword_fails_iff_invalid [of ?env ?long]
  have b: "generatePassword ?env ?long = Inl LengthOutOfRange"
    by blast
  have "valid_policy ?ok"
    by (simp add: valid_policy_def class_enabled_def)
  with generatePassword_fails_iff_invalid [of ?env ?ok]
  have c: "isl (generatePassword ?env ?ok) = False"
    by blast
  from a b c show ?thesis
    by (intro conjI)
qed

text \<open>
  Claim C8. The character set that \<open>generatePassword\<close> builds is the concatenation, in the
  order uppercase, lowercase, digits, symbols, of the alphabets of exactly the enabled
  classes. The uppercase alphabet is the 26 letters from A to Z, the lowercase alphabet the
  26 letters from a to z, the digits the 10 characters from 0 to 9, and the symbols the 26
  characters of the given string. The character set is not empty when a class is enabled.
\<close>

theorem charset_is_ordered_concatenation:
  "charset_of options = pool_by_spec options \<and>
   UPPERCASE = map char_of [of_char CHR ''A'' ..< Suc (of_char CHR ''Z'') :: nat] \<and>
   length UPPERCASE = 26 \<and>
   LOWERCASE = map char_of [of_char CHR ''a'' ..< Suc (of_char CHR ''z'') :: nat] \<and>
   length LOWERCASE = 26 \<and>
   NUMBERS = map char_of [of_char CHR ''0'' ..< Suc (of_char CHR ''9'') :: nat] \<and>
   length NUMBERS = 10 \<and>
   SYMBOLS = ''!@#$%^&*()_+-=[]{}|;:,.<>?'' \<and>
   length SYMBOLS = 26 \<and>
   (class_enabled options \<longrightarrow> charset_of options \<noteq> [])"
proof (intro conjI)
  show "charset_of options = pool_by_spec options"
    by (rule charset_of_pool)
  show "UPPERCASE = map char_of [of_char CHR ''A'' ..< Suc (of_char CHR ''Z'') :: nat]"
    by (rule UPPERCASE_range)
  show "LOWERCASE = map char_of [of_char CHR ''a'' ..< Suc (of_char CHR ''z'') :: nat]"
    by (rule LOWERCASE_range)
  show "NUMBERS = map char_of [of_char CHR ''0'' ..< Suc (of_char CHR ''9'') :: nat]"
    by (rule NUMBERS_range)
  show "length UPPERCASE = 26" by (simp add: UPPERCASE_def)
  show "length LOWERCASE = 26" by (simp add: LOWERCASE_def)
  show "length NUMBERS = 10" by (simp add: NUMBERS_def)
  show "SYMBOLS = ''!@#$%^&*()_+-=[]{}|;:,.<>?''" by (simp add: SYMBOLS_def)
  show "length SYMBOLS = 26" by (simp add: SYMBOLS_def)
  show "class_enabled options \<longrightarrow> charset_of options \<noteq> []"
    by (simp add: charset_of_empty_iff)
qed

theorem charset_witness:
  "charset_of \<lparr>length_opt = 8, includeUppercase = False, includeLowercase = True,
               includeNumbers = True, includeSymbols = False\<rparr> =
     ''abcdefghijklmnopqrstuvwxyz0123456789'' \<and>
   charset_of initialOptions \<noteq> []"
proof -
  let ?options = "\<lparr>length_opt = 8, includeUppercase = False, includeLowercase = True,
               includeNumbers = True, includeSymbols = False\<rparr>"
  have "charset_of ?options = pool_by_spec ?options"
    using charset_is_ordered_concatenation [of ?options] by (rule conjunct1)
  then have a: "charset_of ?options = ''abcdefghijklmnopqrstuvwxyz0123456789''"
    by (simp add: pool_by_spec_def LOWERCASE_def NUMBERS_def)
  have "class_enabled initialOptions"
    by (simp add: class_enabled_def initialOptions_def)
  with charset_is_ordered_concatenation [of initialOptions]
  have b: "charset_of initialOptions \<noteq> []"
    by blast
  from a b show ?thesis ..
qed

section \<open>Properties of the strength score\<close>

lemma Math_round_mono: "x \<le> y \<Longrightarrow> Math_round x \<le> Math_round y"
  by (simp add: Math_round_def floor_mono)

lemma Math_min_mono: "a \<le> b \<Longrightarrow> Math_min 10 a \<le> Math_min 10 b"
  by (simp add: Math_min_def)

lemma strength_sum_nonneg: "0 \<le> strength_sum password options"
  by (simp add: strength_sum_def Let_def)

lemma strength_sum_mono_length:
  "length p1 \<le> length p2 \<Longrightarrow> strength_sum p1 options \<le> strength_sum p2 options"
  by (simp add: strength_sum_def)

lemma score_mono:
  "strength_sum p1 o1 \<le> strength_sum p2 o2 \<Longrightarrow>
   calculatePasswordStrength p1 o1 \<le> calculatePasswordStrength p2 o2"
  unfolding calculatePasswordStrength_def by (intro Math_min_mono Math_round_mono)

text \<open>
  Claim C4. The score depends on the length of the password and on the four flags only:
  two passwords of equal length, whatever their characters, get the same score under the
  same policy, and even under two policies that agree on the four flags.
\<close>

theorem calculatePasswordStrength_length_and_flags_only:
  assumes "length p1 = length p2"
    and "includeUppercase o1 = includeUppercase o2"
    and "includeLowercase o1 = includeLowercase o2"
    and "includeNumbers o1 = includeNumbers o2"
    and "includeSymbols o1 = includeSymbols o2"
  shows "calculatePasswordStrength p1 o1 = calculatePasswordStrength p2 o2"
  using assms by (simp add: calculatePasswordStrength_def strength_sum_def)

theorem calculatePasswordStrength_content_witness:
  "calculatePasswordStrength ''aaaaaaaa'' initialOptions =
   calculatePasswordStrength ''Zq8#kL2!'' initialOptions"
  using calculatePasswordStrength_length_and_flags_only
    [of "''aaaaaaaa''" "''Zq8#kL2!''" initialOptions initialOptions]
  by simp

text \<open>
  Claim C5. The four boundary scenarios. A password of length 16 with the four classes
  enabled sums to 10, scores 10 and is labelled Strong. Length 6 with lowercase only sums
  to 2.5, which rounds up to the score 3, labelled Weak. Length 8 with uppercase and
  lowercase sums to 5, scores 5 and is labelled Medium. Length 32 with symbols only sums to
  5.5, which rounds to the score 6, labelled Medium.
\<close>

theorem strength_boundary_scenarios:
  fixes n :: int
  assumes "length p16 = 16" "length p6 = 6" "length p8 = 8" "length p32 = 32"
  defines "every \<equiv> \<lparr>length_opt = n, includeUppercase = True, includeLowercase = True,
                    includeNumbers = True, includeSymbols = True\<rparr>"
    and "lower \<equiv> \<lparr>length_opt = n, includeUppercase = False, includeLowercase = True,
                    includeNumbers = False, includeSymbols = False\<rparr>"
    and "letters \<equiv> \<lparr>length_opt = n, includeUppercase = True, includeLowercase = True,
                    includeNumbers = False, includeSymbols = False\<rparr>"
    and "symbols \<equiv> \<lparr>length_opt = n, includeUppercase = False, includeLowercase = False,
                    includeNumbers = False, includeSymbols = True\<rparr>"
  shows "strength_sum p16 every = 10 \<and> calculatePasswordStrength p16 every = 10 \<and>
         label (getStrengthInfo (calculatePasswordStrength p16 every)) = ''Strong'' \<and>
         strength_sum p6 lower = 5 / 2 \<and> calculatePasswordStrength p6 lower = 3 \<and>
         label (getStrengthInfo (calculatePasswordStrength p6 lower)) = ''Weak'' \<and>
         strength_sum p8 letters = 5 \<and> calculatePasswordStrength p8 letters = 5 \<and>
         label (getStrengthInfo (calculatePasswordStrength p8 letters)) = ''Medium'' \<and>
         strength_sum p32 symbols = 11 / 2 \<and> calculatePasswordStrength p32 symbols = 6 \<and>
         label (getStrengthInfo (calculatePasswordStrength p32 symbols)) = ''Medium''"
proof -
  have s16: "strength_sum p16 every = 10"
    using assms(1) by (simp add: strength_sum_def every_def)
  have s6: "strength_sum p6 lower = 5 / 2"
    using assms(2) by (simp add: strength_sum_def lower_def)
  have s8: "strength_sum p8 letters = 5"
    using assms(3) by (simp add: strength_sum_def letters_def)
  have s32: "strength_sum p32 symbols = 11 / 2"
    using assms(4) by (simp add: strength_sum_def symbols_def)
  have r10: "Math_round 10 = 10" and r5: "Math_round 5 = 5"
    by (simp_all add: Math_round_def floor_eq_iff)
  have r52: "Math_round (5 / 2) = 3"
    by (simp add: Math_round_def floor_eq_iff)
  have r112: "Math_round (11 / 2) = 6"
    by (simp add: Math_round_def floor_eq_iff)
  have c16: "calculatePasswordStrength p16 every = 10"
    by (simp add: calculatePasswordStrength_def s16 r10 Math_min_def)
  have c6: "calculatePasswordStrength p6 lower = 3"
    by (simp add: calculatePasswordStrength_def s6 r52 Math_min_def)
  have c8: "calculatePasswordStrength p8 letters = 5"
    by (simp add: calculatePasswordStrength_def s8 r5 Math_min_def)
  have c32: "calculatePasswordStrength p32 symbols = 6"
    by (simp add: calculatePasswordStrength_def s32 r112 Math_min_def)
  show ?thesis
    by (simp add: s16 s6 s8 s32 c16 c6 c8 c32 getStrengthInfo_def)
qed

theorem strength_boundary_witness:
  "strength_sum ''abcdef''
     \<lparr>length_opt = 6, includeUppercase = False, includeLowercase = True,
      includeNumbers = False, includeSymbols = False\<rparr> = 5 / 2 \<and>
   calculatePasswordStrength ''abcdef''
     \<lparr>length_opt = 6, includeUppercase = False, includeLowercase = True,
      includeNumbers = False, includeSymbols = False\<rparr> = 3 \<and>
   calculatePasswordStrength ''abcdefghijklmnopqrstuvwxyzABCDEF''
     \<lparr>length_opt = 6, includeUppercase = False, includeLowercase = False,
      includeNumbers = False, includeSymbols = True\<rparr> = 6"
proof -
  have "length ''abcdefghijklmnop'' = 16" "length ''abcdef'' = 6" "length ''abcdefgh'' = 8"
    "length ''abcdefghijklmnopqrstuvwxyzABCDEF'' = 32"
    by simp_all
  from strength_boundary_scenarios [OF this, of 6] show ?thesis
    by blast
qed

text \<open>
  The comment of \<open>calculatePasswordStrength\<close> in the source names other bands (0 to 4
  weak, 5 to 7 medium, 8 to 10 strong); the bands that the program applies are those of
  \<open>getStrengthInfo\<close>, which the next theorem states.
\<close>

text \<open>
  Claim C6. \<open>getStrengthInfo\<close> labels a score of at most 3 Weak, a score from 4 to 6 Medium
  and a score of at least 7 Strong. The label is always one of these three, and the colour
  is fixed by the label: red for Weak, yellow for Medium, green for Strong.
\<close>

theorem getStrengthInfo_thresholds:
  "(strength \<le> 3 \<longrightarrow>
      getStrengthInfo strength = \<lparr>label = ''Weak'', color = ''bg-red-500''\<rparr>) \<and>
   (4 \<le> strength \<and> strength \<le> 6 \<longrightarrow>
      getStrengthInfo strength = \<lparr>label = ''Medium'', color = ''bg-yellow-500''\<rparr>) \<and>
   (7 \<le> strength \<longrightarrow>
      getStrengthInfo strength = \<lparr>label = ''Strong'', color = ''bg-green-500''\<rparr>) \<and>
   label (getStrengthInfo strength) \<in> {''Weak'', ''Medium'', ''Strong''} \<and>
   (color (getStrengthInfo strength) = ''bg-red-500'' \<longleftrightarrow>
      label (getStrengthInfo strength) = ''Weak'') \<and>
   (color (getStrengthInfo strength) = ''bg-yellow-500'' \<longleftrightarrow>
      label (getStrengthInfo strength) = ''Medium'') \<and>
   (color (getStrengthInfo strength) = ''bg-green-500'' \<longleftrightarrow>
      label (getStrengthInfo strength) = ''Strong'')"
  by (simp add: getStrengthInfo_def)

theorem getStrengthInfo_witness:
  "getStrengthInfo 3 = \<lparr>label = ''Weak'', color = ''bg-red-500''\<rparr> \<and>
   getStrengthInfo 4 = \<lparr>label = ''Medium'', color = ''bg-yellow-500''\<rparr> \<and>
   getStrengthInfo 6 = \<lparr>label = ''Medium'', color = ''bg-yellow-500''\<rparr> \<and>
   getStrengthInfo 7 = \<lparr>label = ''Strong'', color = ''bg-green-500''\<rparr>"
  using getStrengthInfo_thresholds [of 3] getStrengthInfo_thresholds [of 4]
    getStrengthInfo_thresholds [of 6] getStrengthInfo_thresholds [of 7]
  by simp

text \<open>
  Claim C7. For every password, the empty one included, and every combination of the four
  flags, all false included, \<open>calculatePasswordStrength\<close> returns an integer that is at
  least 0 and at most 10. The function has no failing branch.
\<close>

theorem calculatePasswordStrength_range:
  "0 \<le> calculatePasswordStrength password options \<and>
   calculatePasswordStrength password options \<le> 10"
proof
  have "0 \<le> Math_round (strength_sum password options)"
    using strength_sum_nonneg [of password options] by (simp add: Math_round_def)
  then show "0 \<le> calculatePasswordStrength password options"
    by (simp add: calculatePasswordStrength_def Math_min_def)
  show "calculatePasswordStrength password options \<le> 10"
    by (simp add: calculatePasswordStrength_def Math_min_def)
qed

text \<open>
  Claim C10. The score never decreases when the password gets longer under the same
  policy, nor when one flag of the policy goes from false to true for the same password.
\<close>

theorem calculatePasswordStrength_monotone:
  "(length p1 \<le> length p2 \<longrightarrow>
      calculatePasswordStrength p1 options \<le> calculatePasswordStrength p2 options) \<and>
   (\<not> includeUppercase options \<longrightarrow>
      calculatePasswordStrength password options \<le>
      calculatePasswordStrength password (options\<lparr>includeUppercase := True\<rparr>)) \<and>
   (\<not> includeLowercase options \<longrightarrow>
      calculatePasswordStrength password options \<le>
      calculatePasswordStrength password (options\<lparr>includeLowercase := True\<rparr>)) \<and>
   (\<not> includeNumbers options \<longrightarrow>
      calculatePasswordStrength password options \<le>
      calculatePasswordStrength password (options\<lparr>includeNumbers := True\<rparr>)) \<and>
   (\<not> includeSymbols options \<longrightarrow>
      calculatePasswordStrength password options \<le>
      calculatePasswordStrength password (options\<lparr>includeSymbols := True\<rparr>))"
proof (intro conjI impI)
  assume "length p1 \<le> length p2"
  then show "calculatePasswordStrength p1 options \<le> calculatePasswordStrength p2 options"
    by (intro score_mono strength_sum_mono_length)
next
  show "calculatePasswordStrength password options \<le>
        calculatePasswordStrength password (options\<lparr>includeUppercase := True\<rparr>)"
    by (rule score_mono) (simp add: strength_sum_def)
next
  show "calculatePasswordStrength password options \<le>
        calculatePasswordStrength password (options\<lparr>includeLowercase := True\<rparr>)"
    by (rule score_mono) (simp add: strength_sum_def)
next
  show "calculatePasswordStrength password options \<le>
        calculatePasswordStrength password (options\<lparr>includeNumbers := True\<rparr>)"
    by (rule score_mono) (simp add: strength_sum_def)
next
  show "calculatePasswordStrength password options \<le>
        calculatePasswordStrength password (options\<lparr>includeSymbols := True\<rparr>)"
    by (rule score_mono) (simp add: strength_sum_def)
qed

theorem calculatePasswordStrength_monotone_witness:
  "calculatePasswordStrength ''abc'' initialOptions \<le>
     calculatePasswordStrength ''abcdefgh'' initialOptions \<and>
   calculatePasswordStrength ''abcdefgh''
     \<lparr>length_opt = 8, includeUppercase = False, includeLowercase = True,
      includeNumbers = False, includeSymbols = False\<rparr> \<le>
   calculatePasswordStrength ''abcdefgh''
     \<lparr>length_opt = 8, includeUppercase = True, includeLowercase = True,
      includeNumbers = False, includeSymbols = False\<rparr>"
proof -
  let ?lower = "\<lparr>length_opt = 8, includeUppercase = False, includeLowercase = True,
      includeNumbers = False, includeSymbols = False\<rparr>"
  have "length ''abc'' \<le> length ''abcdefgh''"
    by simp
  with calculatePasswordStrength_monotone
    [where ?p1.0 = "''abc''" and ?p2.0 = "''abcdefgh''" and options = initialOptions]
  have a: "calculatePasswordStrength ''abc'' initialOptions \<le>
     calculatePasswordStrength ''abcdefgh'' initialOptions"
    by blast
  have "\<not> includeUppercase ?lower"
    by simp
  with calculatePasswordStrength_monotone
    [where options = ?lower and password = "''abcdefgh''"]
  have "calculatePasswordStrength ''abcdefgh'' ?lower \<le>
     calculatePasswordStrength ''abcdefgh'' (?lower\<lparr>includeUppercase := True\<rparr>)"
    by blast
  with a show ?thesis
    by simp
qed

section \<open>The generate action\<close>

text \<open>
  Claim C9. When \<open>generatePassword\<close> throws inside \<open>generateNewPassword\<close>, the handler
  catches the error and logs it, and every cell of the state, the displayed password
  included, stays as it was. The password cell changes only when \<open>generatePassword\<close>
  returns a string, which then becomes the password. In particular the state stays as it
  was whenever the policy handed to \<open>generatePassword\<close> is not valid.
\<close>

theorem generateNewPassword_keeps_state_on_error:
  "(\<forall>error. generatePassword env ((options_st st)\<lparr>length_opt := length_st st\<rparr>) = Inl error \<longrightarrow>
      generateNewPassword env st = (st, [(''Error generating password:'', error)])) \<and>
   (\<forall>newPassword.
      generatePassword env ((options_st st)\<lparr>length_opt := length_st st\<rparr>) = Inr newPassword \<longrightarrow>
      generateNewPassword env st = (st\<lparr>password_st := newPassword, copied_st := False\<rparr>, [])) \<and>
   (password_st (fst (generateNewPassword env st)) \<noteq> password_st st \<longrightarrow>
      (\<exists>newPassword.
         generatePassword env ((options_st st)\<lparr>length_opt := length_st st\<rparr>) = Inr newPassword)) \<and>
   (\<not> valid_policy ((options_st st)\<lparr>length_opt := length_st st\<rparr>) \<longrightarrow>
      fst (generateNewPassword env st) = st)"
proof (intro conjI allI impI)
  fix error
  assume "generatePassword env ((options_st st)\<lparr>length_opt := length_st st\<rparr>) = Inl error"
  then show "generateNewPassword env st = (st, [(''Error generating password:'', error)])"
    by (simp add: generateNewPassword_def)
next
  fix newPassword
  assume "generatePassword env ((options_st st)\<lparr>length_opt := length_st st\<rparr>) = Inr newPassword"
  then show "generateNewPassword env st = (st\<lparr>password_st := newPassword, copied_st := False\<rparr>, [])"
    by (simp add: generateNewPassword_def)
next
  assume "password_st (fst (generateNewPassword env st)) \<noteq> password_st st"
  then show "\<exists>newPassword.
      generatePassword env ((options_st st)\<lparr>length_opt := length_st st\<rparr>) = Inr newPassword"
    by (cases "generatePassword env ((options_st st)\<lparr>length_opt := length_st st\<rparr>)")
      (simp_all add: generateNewPassword_def)
next
  let ?options = "(options_st st)\<lparr>length_opt := length_st st\<rparr>"
  assume "\<not> valid_policy ?options"
  then have "generatePassword env ?options = Inl EmptyCharacterClassSet \<or>
             generatePassword env ?options = Inl LengthOutOfRange"
    using generatePassword_no_class [of ?options env] generatePassword_bad_length [of ?options env]
    unfolding valid_policy_def by linarith
  then show "fst (generateNewPassword env st) = st"
    by (auto simp: generateNewPassword_def)
qed

theorem generateNewPassword_witness:
  "generateNewPassword
     \<lparr>windowCrypto = True, getRandomValues = (\<lambda>i. 7), mathRandomFloor = (\<lambda>i. 0)\<rparr>
     \<lparr>length_st = 16,
      options_st = \<lparr>length_opt = 16, includeUppercase = False, includeLowercase = False,
                    includeNumbers = False, includeSymbols = False\<rparr>,
      copied_st = True, password_st = ''previous''\<rparr> =
   (\<lparr>length_st = 16,
      options_st = \<lparr>length_opt = 16, includeUppercase = False, includeLowercase = False,
                    includeNumbers = False, includeSymbols = False\<rparr>,
      copied_st = True, password_st = ''previous''\<rparr>,
    [(''Error generating password:'', EmptyCharacterClassSet)])"
proof -
  let ?env = "\<lparr>windowCrypto = True, getRandomValues = (\<lambda>i. 7), mathRandomFloor = (\<lambda>i. 0)\<rparr>"
  let ?st = "\<lparr>length_st = 16,
      options_st = \<lparr>length_opt = 16, includeUppercase = False, includeLowercase = False,
                    includeNumbers = False, includeSymbols = False\<rparr>,
      copied_st = True, password_st = ''previous''\<rparr>"
  have "generatePassword ?env ((options_st ?st)\<lparr>length_opt := length_st ?st\<rparr>) =
        Inl EmptyCharacterClassSet"
    by (rule generatePassword_no_class) (simp add: class_enabled_def)
  with generateNewPassword_keeps_state_on_error [of ?env ?st] show ?thesis
    by blast
qed

end
